theory Spec2Isabelle
  imports Complex_Main
begin

section \<open>The OceanView time-series reader (ixdat/readers/oceanview.py)\<close>

text \<open>
  A shallow embedding of \<^verbatim>\<open>OceanViewTimeSeriesReader\<close>. The reader is a pure transform
  from the lines of a text file (and the path string) to a spectrum-series object, so the
  model is a function from the list returned by \<^verbatim>\<open>f.readlines()\<close> to a result of type
  \<open>error + spectrum_series\<close>; every \<^verbatim>\<open>raise\<close> of the source and every exception of a
  library call it makes is a branch that returns \<open>Inl\<close>.

  Modelling conventions.
  \<^item> A Python \<^verbatim>\<open>str\<close> is a \<open>string\<close>; a \<open>char\<close> stands for the code point of the same
    number, so the model covers the texts whose code points are below 256. The character
    classes below (\<open>isspace\<close>, \<open>isword\<close>, \<open>lower_chr\<close>) are those of Python 3 on this range.
  \<^item> The library functions the source calls (\<^verbatim>\<open>re.sub\<close>, \<^verbatim>\<open>re.split\<close>,
    \<^verbatim>\<open>re.search\<close>, \<^verbatim>\<open>re.match\<close>, \<^verbatim>\<open>datetime.strptime\<close>, \<^verbatim>\<open>float\<close>,
    \<^verbatim>\<open>str.strip\<close>, \<^verbatim>\<open>str.split\<close>, \<^verbatim>\<open>Path.stem\<close>) are modelled as executable
    functions: regular expressions by a backtracking matcher that returns its matches in
    the order in which Python's engine tries them, \<^verbatim>\<open>strptime\<close> by the regular expression
    that \<^verbatim>\<open>_strptime\<close> builds from the format (C locale), followed by its range checks.
  \<^item> A Python \<^verbatim>\<open>float\<close> is a \<open>pyfloat\<close>: a finite value, an infinity or NaN. A finite
    value is kept as the exact rational number; overflow to an infinity is modelled, the
    rounding of a finite result to the nearest binary64 number is not.
\<close>

subsection \<open>Characters and the string methods used by the reader\<close>

definition ord :: "char \<Rightarrow> nat" where
  "ord c = of_char c"

text \<open>\<^verbatim>\<open>str.isspace\<close>, which is also the class \<^verbatim>\<open>\s\<close> of \<^verbatim>\<open>re\<close> and the set that
  \<^verbatim>\<open>str.strip()\<close> and \<^verbatim>\<open>str.split()\<close> remove.\<close>

definition isspace :: "char \<Rightarrow> bool" where
  "isspace c = (ord c \<in> {9, 10, 11, 12, 13, 28, 29, 30, 31, 32, 133, 160})"

text \<open>The class \<^verbatim>\<open>\d\<close> (and \<^verbatim>\<open>[0-9]\<close>): the decimal digits.\<close>

definition isdigit :: "char \<Rightarrow> bool" where
  "isdigit c = (48 \<le> ord c \<and> ord c \<le> 57)"

text \<open>The class \<^verbatim>\<open>\w\<close>: alphanumeric characters and the underscore.\<close>

definition isword :: "char \<Rightarrow> bool" where
  "isword c = (let n = ord c in
     (48 \<le> n \<and> n \<le> 57) \<or> (65 \<le> n \<and> n \<le> 90) \<or> n = 95 \<or> (97 \<le> n \<and> n \<le> 122) \<or>
     n \<in> {170, 178, 179, 181, 185, 186, 188, 189, 190} \<or>
     (192 \<le> n \<and> n \<le> 214) \<or> (216 \<le> n \<and> n \<le> 246) \<or> 248 \<le> n)"

definition in_range :: "char \<Rightarrow> char \<Rightarrow> char \<Rightarrow> bool" where
  "in_range lo hi c = (ord lo \<le> ord c \<and> ord c \<le> ord hi)"

text \<open>\<^verbatim>\<open>str.lower\<close> on one character: the letters A-Z and the capital letters of the
  range 192-222 (215 is the multiplication sign) move up by 32. In both ranges the bit of
  value 32 is clear, so adding 32 is setting that bit.\<close>

definition is_upper :: "char \<Rightarrow> bool" where
  "is_upper c = (let n = ord c in
     (65 \<le> n \<and> n \<le> 90) \<or> (192 \<le> n \<and> n \<le> 222 \<and> n \<noteq> 215))"

definition lower_chr :: "char \<Rightarrow> char" where
  "lower_chr c =
     (if is_upper c
      then (case c of Char b0 b1 b2 b3 b4 b5 b6 b7 \<Rightarrow> Char b0 b1 b2 b3 b4 True b6 b7)
      else c)"

definition lower :: "string \<Rightarrow> string" where
  "lower s = map lower_chr s"

definition lstrip :: "string \<Rightarrow> string" where
  "lstrip s = dropWhile isspace s"

definition strip :: "string \<Rightarrow> string" where
  "strip s = rev (dropWhile isspace (rev (dropWhile isspace s)))"

definition startswith :: "string \<Rightarrow> string \<Rightarrow> bool" where
  "startswith s pre = (take (length pre) s = pre)"

text \<open>\<^verbatim>\<open>s.replace(a, b)\<close> for one-character strings \<open>a\<close> and \<open>b\<close>.\<close>

definition replace :: "char \<Rightarrow> char \<Rightarrow> string \<Rightarrow> string" where
  "replace a b s = map (\<lambda>c. if c = a then b else c) s"

text \<open>\<^verbatim>\<open>s.split(sep, 1)\<close> for a one-character separator: at most one split, at the first
  occurrence.\<close>

definition split1 :: "char \<Rightarrow> string \<Rightarrow> string list" where
  "split1 sep s = (if sep \<in> set s
     then [takeWhile (\<lambda>c. c \<noteq> sep) s, tl (dropWhile (\<lambda>c. c \<noteq> sep) s)]
     else [s])"

text \<open>\<^verbatim>\<open>s.split()\<close>: the maximal runs of non-whitespace characters.\<close>

fun split_acc :: "string \<Rightarrow> string \<Rightarrow> string list" where
  "split_acc cur [] = (if cur = [] then [] else [cur])"
| "split_acc cur (c # s) =
     (if isspace c then (if cur = [] then split_acc [] s else cur # split_acc [] s)
      else split_acc (cur @ [c]) s)"

definition split_ws :: "string \<Rightarrow> string list" where
  "split_ws s = split_acc [] s"

subsection \<open>Regular expressions (module re)\<close>

text \<open>
  The constructs that occur in the patterns of the reader and of \<^verbatim>\<open>_strptime\<close>: one
  character of a class, sequence, alternative, greedy bounded repetition \<^verbatim>\<open>{lo,hi}\<close>
  (\<open>None\<close>: no upper bound), named group, \<^verbatim>\<open>\b\<close>, \<^verbatim>\<open>^\<close>, \<^verbatim>\<open>$\<close> and the lookahead
  \<^verbatim>\<open>(?=...)\<close>.
\<close>

datatype regex =
    Chr "char \<Rightarrow> bool"
  | Eps
  | Seq regex regex
  | Alt regex regex
  | Rep regex nat "nat option"
  | Grp string regex
  | Bound
  | Bol
  | Eol
  | Ahead regex

text \<open>A matcher state: the character before the position (for \<^verbatim>\<open>\b\<close> and \<^verbatim>\<open>^\<close>), the
  rest of the subject, and the groups captured so far.\<close>

type_synonym rstate = "char option \<times> string \<times> (string \<times> string) list"

fun step_chr :: "(char \<Rightarrow> bool) \<Rightarrow> rstate \<Rightarrow> rstate list" where
  "step_chr P (p, [], cs) = []"
| "step_chr P (p, c # s, cs) = (if P c then [(Some c, s, cs)] else [])"

text \<open>Greedy repetition: one more round is tried before stopping.\<close>

fun rep :: "(rstate \<Rightarrow> rstate list) \<Rightarrow> nat \<Rightarrow> nat \<Rightarrow> rstate \<Rightarrow> rstate list" where
  "rep f lo 0 st = (if lo = 0 then [st] else [])"
| "rep f lo (Suc h) st =
     concat (map (rep f (lo - 1) h) (f st)) @ (if lo = 0 then [st] else [])"

fun at_boundary :: "rstate \<Rightarrow> bool" where
  "at_boundary (p, s, cs) =
     ((case p of None \<Rightarrow> False | Some c \<Rightarrow> isword c) \<noteq>
      (case s of [] \<Rightarrow> False | c # _ \<Rightarrow> isword c))"

fun at_end :: "rstate \<Rightarrow> bool" where
  "at_end (p, s, cs) = (s = [] \<or> s = [CHR 0x0A])"

text \<open>All the ways in which a pattern matches at a position, in the order in which the
  backtracking engine of \<^verbatim>\<open>re\<close> explores them: the head of the list is the match that
  \<^verbatim>\<open>re\<close> reports.\<close>

primrec rmatch :: "regex \<Rightarrow> rstate \<Rightarrow> rstate list" where
  "rmatch (Chr P) st = step_chr P st"
| "rmatch Eps st = [st]"
| "rmatch (Seq a b) st = concat (map (rmatch b) (rmatch a st))"
| "rmatch (Alt a b) st = rmatch a st @ rmatch b st"
| "rmatch (Rep r lo hi) st =
     rep (rmatch r) lo (case hi of Some h \<Rightarrow> h | None \<Rightarrow> max lo (length (fst (snd st)))) st"
| "rmatch (Grp n r) st =
     map (\<lambda>(p', s', cs').
            (p', s', cs' @ [(n, take (length (fst (snd st)) - length s') (fst (snd st)))]))
         (rmatch r st)"
| "rmatch Bound st = (if at_boundary st then [st] else [])"
| "rmatch Bol st = (if fst st = None then [st] else [])"
| "rmatch Eol st = (if at_end st then [st] else [])"
| "rmatch (Ahead r) st = (if rmatch r st = [] then [] else [st])"

definition lit :: "char \<Rightarrow> regex" where
  "lit c = Chr (\<lambda>x. x = c)"

text \<open>A literal character under \<^verbatim>\<open>re.IGNORECASE\<close>.\<close>

definition ilit :: "char \<Rightarrow> regex" where
  "ilit c = Chr (\<lambda>x. lower_chr x = lower_chr c)"

definition str_re :: "string \<Rightarrow> regex" where
  "str_re s = foldr (\<lambda>c r. Seq (lit c) r) s Eps"

definition istr_re :: "string \<Rightarrow> regex" where
  "istr_re s = foldr (\<lambda>c r. Seq (ilit c) r) s Eps"

definition seqs :: "regex list \<Rightarrow> regex" where
  "seqs rs = foldr Seq rs Eps"

fun alts :: "regex list \<Rightarrow> regex" where
  "alts [] = Chr (\<lambda>c. False)"
| "alts [r] = r"
| "alts (r # rs) = Alt r (alts rs)"

definition plus :: "regex \<Rightarrow> regex" where
  "plus r = Rep r 1 None"

definition star :: "regex \<Rightarrow> regex" where
  "star r = Rep r 0 None"

definition opt :: "regex \<Rightarrow> regex" where
  "opt r = Rep r 0 (Some 1)"

text \<open>\<^verbatim>\<open>re.match(r, s)\<close>: the first match at the start of \<open>s\<close>.\<close>

definition re_match :: "regex \<Rightarrow> string \<Rightarrow> rstate option" where
  "re_match r s = (case rmatch r (None, s, []) of [] \<Rightarrow> None | st # _ \<Rightarrow> Some st)"

text \<open>\<^verbatim>\<open>re.search(r, s)\<close>: the first match at the leftmost position that has one.\<close>

fun search_from :: "regex \<Rightarrow> char option \<Rightarrow> string \<Rightarrow> rstate option" where
  "search_from r p [] = (case rmatch r (p, [], []) of [] \<Rightarrow> None | st # _ \<Rightarrow> Some st)"
| "search_from r p (c # s) =
     (case rmatch r (p, c # s, []) of [] \<Rightarrow> search_from r (Some c) s | st # _ \<Rightarrow> Some st)"

definition re_search :: "regex \<Rightarrow> string \<Rightarrow> rstate option" where
  "re_search r s = search_from r None s"

text \<open>\<^verbatim>\<open>re.sub(r, repl, s)\<close> and \<^verbatim>\<open>re.split(r, s)\<close> scan the subject from the left; after
  a match of \<open>n\<close> characters the next \<open>n - 1\<close> characters are skipped (the counter). The
  patterns of the reader never match the empty string; a position where only an empty
  match exists is treated as a position with no match.\<close>

fun sub_from :: "regex \<Rightarrow> string \<Rightarrow> char option \<Rightarrow> nat \<Rightarrow> string \<Rightarrow> string" where
  "sub_from r repl p k [] = []"
| "sub_from r repl p (Suc k) (c # s) = sub_from r repl (Some c) k s"
| "sub_from r repl p 0 (c # s) =
     (case rmatch r (p, c # s, []) of
        [] \<Rightarrow> c # sub_from r repl (Some c) 0 s
      | (_, s', _) # _ \<Rightarrow>
          (if length s' \<le> length s then repl @ sub_from r repl (Some c) (length s - length s') s
           else c # sub_from r repl (Some c) 0 s))"

definition re_sub :: "regex \<Rightarrow> string \<Rightarrow> string \<Rightarrow> string" where
  "re_sub r repl s = sub_from r repl None 0 s"

fun split_from :: "regex \<Rightarrow> char option \<Rightarrow> nat \<Rightarrow> string \<Rightarrow> string \<Rightarrow> string list" where
  "split_from r p k cur [] = [cur]"
| "split_from r p (Suc k) cur (c # s) = split_from r (Some c) k cur s"
| "split_from r p 0 cur (c # s) =
     (case rmatch r (p, c # s, []) of
        [] \<Rightarrow> split_from r (Some c) 0 (cur @ [c]) s
      | (_, s', _) # _ \<Rightarrow>
          (if length s' \<le> length s then cur # split_from r (Some c) (length s - length s') [] s
           else split_from r (Some c) 0 (cur @ [c]) s))"

definition re_split :: "regex \<Rightarrow> string \<Rightarrow> string list" where
  "re_split r s = split_from r None 0 [] s"

subsection \<open>Floating-point values and the builtin float\<close>

datatype pyfloat = Fin rat | PInf | NInf | NaN

text \<open>A result whose magnitude reaches \<open>2^1024 - 2^970\<close> rounds to an infinity.\<close>

definition dbl_limit :: rat where
  "dbl_limit = 2 ^ 1024 - 2 ^ 970"

definition rnd :: "rat \<Rightarrow> pyfloat" where
  "rnd q = (if dbl_limit \<le> q then PInf else if q \<le> - dbl_limit then NInf else Fin q)"

fun fsub :: "pyfloat \<Rightarrow> pyfloat \<Rightarrow> pyfloat" where
  "fsub (Fin a) (Fin b) = rnd (a - b)"
| "fsub NaN y = NaN"
| "fsub x NaN = NaN"
| "fsub PInf PInf = NaN"
| "fsub NInf NInf = NaN"
| "fsub PInf y = PInf"
| "fsub NInf y = NInf"
| "fsub (Fin a) PInf = NInf"
| "fsub (Fin a) NInf = PInf"

fun is_finite :: "pyfloat \<Rightarrow> bool" where
  "is_finite (Fin q) = True"
| "is_finite x = False"

text \<open>\<^verbatim>\<open>float(s)\<close>: the whitespace that \<^verbatim>\<open>float\<close> removes at both ends, the rule for
  underscores (only between two digits), then an optional sign followed by
  \<^verbatim>\<open>inf\<close>, \<^verbatim>\<open>infinity\<close>, \<^verbatim>\<open>nan\<close> (in any case) or a decimal number with an optional
  exponent. \<open>None\<close> is the \<^verbatim>\<open>ValueError\<close>.\<close>

definition float_space :: "char \<Rightarrow> bool" where
  "float_space c = (ord c \<in> {9, 10, 11, 12, 13, 32, 133, 160})"

definition float_strip :: "string \<Rightarrow> string" where
  "float_strip s = rev (dropWhile float_space (rev (dropWhile float_space s)))"

fun underscores_ok :: "char \<Rightarrow> string \<Rightarrow> bool" where
  "underscores_ok prev [] = (prev \<noteq> CHR ''_'')"
| "underscores_ok prev (c # s) =
     (if c = CHR ''_'' then isdigit prev \<and> underscores_ok c s
      else if prev = CHR ''_'' then isdigit c \<and> underscores_ok c s
      else underscores_ok c s)"

definition digits_val :: "string \<Rightarrow> nat" where
  "digits_val s = foldl (\<lambda>a c. 10 * a + (ord c - 48)) 0 s"

fun take_sign :: "string \<Rightarrow> bool \<times> string" where
  "take_sign [] = (False, [])"
| "take_sign (c # s) =
     (if c = CHR ''-'' then (True, s) else if c = CHR ''+'' then (False, s) else (False, c # s))"

definition parse_decimal :: "string \<Rightarrow> rat option" where
  "parse_decimal s =
     (let ip = takeWhile isdigit s;
          r1 = dropWhile isdigit s;
          hasdot = (r1 \<noteq> [] \<and> hd r1 = CHR ''.'');
          fp = (if hasdot then takeWhile isdigit (tl r1) else []);
          r2 = (if hasdot then dropWhile isdigit (tl r1) else r1);
          m = of_nat (digits_val (ip @ fp)) / 10 ^ length fp
      in if ip = [] \<and> fp = [] then None
         else (case r2 of
                 [] \<Rightarrow> Some m
               | e # t \<Rightarrow>
                   (if e = CHR ''e'' \<or> e = CHR ''E'' then
                      (case take_sign t of (neg, ds) \<Rightarrow>
                         (if ds \<noteq> [] \<and> list_all isdigit ds
                          then Some (if neg then m / 10 ^ digits_val ds else m * 10 ^ digits_val ds)
                          else None))
                    else None)))"

definition py_float :: "string \<Rightarrow> pyfloat option" where
  "py_float s0 =
     (let s = float_strip s0 in
      if underscores_ok (CHR 0x00) s then
        (case take_sign (filter (\<lambda>c. c \<noteq> CHR ''_'') s) of (neg, body) \<Rightarrow>
           (if lower body = ''inf'' \<or> lower body = ''infinity'' then Some (if neg then NInf else PInf)
            else if lower body = ''nan'' then Some NaN
            else (case parse_decimal body of
                    None \<Rightarrow> None
                  | Some q \<Rightarrow> Some (rnd (if neg then - q else q)))))
      else None)"

subsection \<open>Naive datetimes and datetime.strptime\<close>

record datetime =
  year :: nat
  month :: nat
  day :: nat
  hour :: nat
  minute :: nat
  second :: nat
  microsecond :: nat

definition is_leap :: "nat \<Rightarrow> bool" where
  "is_leap y = (if y mod 100 = 0 then y mod 400 = 0 else y mod 4 = 0)"

definition days_in_month :: "nat \<Rightarrow> nat \<Rightarrow> nat" where
  "days_in_month y m =
     (if m = 2 then (if is_leap y then 29 else 28)
      else if m = 4 \<or> m = 6 \<or> m = 9 \<or> m = 11 then 30 else 31)"

text \<open>The checks of the \<^verbatim>\<open>datetime\<close> constructor (each failure is a \<^verbatim>\<open>ValueError\<close>).\<close>

definition valid_datetime :: "datetime \<Rightarrow> bool" where
  "valid_datetime d =
     (1 \<le> year d \<and> year d \<le> 9999 \<and> 1 \<le> month d \<and> month d \<le> 12 \<and>
      1 \<le> day d \<and> day d \<le> days_in_month (year d) (month d) \<and>
      hour d \<le> 23 \<and> minute d \<le> 59 \<and> second d \<le> 59 \<and> microsecond d \<le> 999999)"

definition dg :: regex where
  "dg = Chr isdigit"

definition rng :: "char \<Rightarrow> char \<Rightarrow> regex" where
  "rng lo hi = Chr (in_range lo hi)"

definition weekday_names :: "string list" where
  "weekday_names = [''mon'', ''tue'', ''wed'', ''thu'', ''fri'', ''sat'', ''sun'']"

definition month_names :: "string list" where
  "month_names = [''jan'', ''feb'', ''mar'', ''apr'', ''may'', ''jun'',
                  ''jul'', ''aug'', ''sep'', ''oct'', ''nov'', ''dec'']"

text \<open>The regular expressions of the directives, as in the table of \<^verbatim>\<open>_strptime.TimeRE\<close>
  (the directives that the formats of the reader use; any other is \<open>None\<close>).\<close>

definition directive :: "char \<Rightarrow> regex option" where
  "directive d =
     (if d = CHR ''a'' then Some (Grp ''a'' (alts (map istr_re weekday_names)))
      else if d = CHR ''b'' then Some (Grp ''b'' (alts (map istr_re month_names)))
      else if d = CHR ''d'' then Some (Grp ''d'' (alts
             [Seq (lit CHR ''3'') (rng CHR ''0'' CHR ''1''), Seq (rng CHR ''1'' CHR ''2'') dg,
              Seq (lit CHR ''0'') (rng CHR ''1'' CHR ''9''), rng CHR ''1'' CHR ''9'',
              Seq (lit CHR '' '') (rng CHR ''1'' CHR ''9'')]))
      else if d = CHR ''f'' then Some (Grp ''f'' (Rep (rng CHR ''0'' CHR ''9'') 1 (Some 6)))
      else if d = CHR ''H'' then Some (Grp ''H'' (alts
             [Seq (lit CHR ''2'') (rng CHR ''0'' CHR ''3''), Seq (rng CHR ''0'' CHR ''1'') dg, dg]))
      else if d = CHR ''M'' then Some (Grp ''M'' (alts [Seq (rng CHR ''0'' CHR ''5'') dg, dg]))
      else if d = CHR ''S'' then Some (Grp ''S'' (alts
             [Seq (lit CHR ''6'') (rng CHR ''0'' CHR ''1''), Seq (rng CHR ''0'' CHR ''5'') dg, dg]))
      else if d = CHR ''Y'' then Some (Grp ''Y'' (seqs [dg, dg, dg, dg]))
      else if d = CHR ''m'' then Some (Grp ''m'' (alts
             [Seq (lit CHR ''1'') (rng CHR ''0'' CHR ''2''),
              Seq (lit CHR ''0'') (rng CHR ''1'' CHR ''9''), rng CHR ''1'' CHR ''9'']))
      else None)"

text \<open>\<^verbatim>\<open>TimeRE.pattern\<close>: a run of whitespace in the format becomes \<^verbatim>\<open>\s+\<close>, a directive
  its regular expression, any other character a literal; the result is compiled with
  \<^verbatim>\<open>IGNORECASE\<close>. The flag tells that the previous character was whitespace.\<close>

fun pattern_aux :: "bool \<Rightarrow> string \<Rightarrow> regex list option" where
  "pattern_aux w [] = Some []"
| "pattern_aux w (c # s) =
     (if isspace c then
        (case pattern_aux True s of
           None \<Rightarrow> None
         | Some rs \<Rightarrow> Some (if w then rs else plus (Chr isspace) # rs))
      else if c = CHR ''%'' then
        (case s of
           [] \<Rightarrow> None
         | d # s' \<Rightarrow>
             (case directive d of
                None \<Rightarrow> None
              | Some r \<Rightarrow>
                  (case pattern_aux False s' of None \<Rightarrow> None | Some rs \<Rightarrow> Some (r # rs))))
      else (case pattern_aux False s of None \<Rightarrow> None | Some rs \<Rightarrow> Some (ilit c # rs)))"

definition pattern :: "string \<Rightarrow> regex option" where
  "pattern fmt = map_option seqs (pattern_aux False fmt)"

definition group :: "(string \<times> string) list \<Rightarrow> string \<Rightarrow> string option" where
  "group cs n = map_of cs n"

text \<open>\<^verbatim>\<open>int(s)\<close> on a string of digits, possibly with whitespace around it.\<close>

definition py_int :: "string \<Rightarrow> nat" where
  "py_int s = digits_val (strip s)"

fun index_of :: "'a \<Rightarrow> 'a list \<Rightarrow> nat" where
  "index_of x [] = 0"
| "index_of x (y # ys) = (if x = y then 0 else Suc (index_of x ys))"

text \<open>The fields of the result: a missing year is 1900, a missing month or day is 1, a
  missing time field is 0; the fraction \<^verbatim>\<open>%f\<close> is padded with zeros to six digits.\<close>

definition datetime_of_groups :: "(string \<times> string) list \<Rightarrow> datetime" where
  "datetime_of_groups cs =
     \<lparr> year = (case group cs ''Y'' of None \<Rightarrow> 1900 | Some v \<Rightarrow> py_int v),
       month = (case group cs ''m'' of
                  Some v \<Rightarrow> py_int v
                | None \<Rightarrow> (case group cs ''b'' of
                             None \<Rightarrow> 1
                           | Some v \<Rightarrow> Suc (index_of (lower v) month_names))),
       day = (case group cs ''d'' of None \<Rightarrow> 1 | Some v \<Rightarrow> py_int v),
       hour = (case group cs ''H'' of None \<Rightarrow> 0 | Some v \<Rightarrow> py_int v),
       minute = (case group cs ''M'' of None \<Rightarrow> 0 | Some v \<Rightarrow> py_int v),
       second = (case group cs ''S'' of None \<Rightarrow> 0 | Some v \<Rightarrow> py_int v),
       microsecond = (case group cs ''f'' of
                        None \<Rightarrow> 0
                      | Some v \<Rightarrow> py_int (v @ replicate (6 - length v) CHR ''0'')) \<rparr>"

text \<open>\<^verbatim>\<open>datetime.strptime(data, fmt)\<close>; \<open>None\<close> is the \<^verbatim>\<open>ValueError\<close>: a bad format, no
  match, unconverted data after the match, or a field out of range.\<close>

definition strptime :: "string \<Rightarrow> string \<Rightarrow> datetime option" where
  "strptime data fmt =
     (case pattern fmt of
        None \<Rightarrow> None
      | Some re \<Rightarrow>
          (case re_match re data of
             None \<Rightarrow> None
           | Some (p, rest, cs) \<Rightarrow>
               (if rest \<noteq> [] then None
                else if valid_datetime (datetime_of_groups cs) then Some (datetime_of_groups cs)
                else None)))"

subsection \<open>Errors, Python values and the returned objects\<close>

text \<open>The exceptions that can leave \<^verbatim>\<open>read\<close>. Those marked ValueError are instances of
  Python's \<^verbatim>\<open>ValueError\<close> with different messages.\<close>

datatype error =
    HeaderDateError string  \<comment> \<open>ValueError "Could not parse header date: ..." with the raw string\<close>
  | NoneTimestamp           \<comment> \<open>AttributeError: 'NoneType' object has no attribute 'timestamp'\<close>
  | TimestampError          \<comment> \<open>\<^verbatim>\<open>datetime.timestamp\<close> raises (date out of the platform's range)\<close>
  | NoSpectralData          \<comment> \<open>ValueError "No spectral data section found!"\<close>
  | WavelengthEmpty         \<comment> \<open>ValueError "OceanView: wavelength line is empty or malformed"\<close>
  | FloatError string       \<comment> \<open>ValueError of \<^verbatim>\<open>float\<close>: could not convert string to float\<close>
  | IndexError              \<comment> \<open>IndexError: list index out of range\<close>
  | UnpackError             \<comment> \<open>ValueError: not enough values to unpack\<close>
  | EmptyLine               \<comment> \<open>ValueError "empty line"\<close>
  | StackError              \<comment> \<open>ValueError of \<^verbatim>\<open>np.stack\<close>: no rows, or rows of different lengths\<close>

text \<open>The values that the argument \<^verbatim>\<open>name\<close> can take, with Python's truth value.\<close>

datatype pyval = PNone | PBool bool | PInt int | PStr string

fun truthy :: "pyval \<Rightarrow> bool" where
  "truthy PNone = False"
| "truthy (PBool b) = b"
| "truthy (PInt i) = (i \<noteq> 0)"
| "truthy (PStr s) = (s \<noteq> [])"

text \<open>\<^verbatim>\<open>a or b\<close>.\<close>

definition py_or :: "pyval \<Rightarrow> pyval \<Rightarrow> pyval" where
  "py_or a b = (if truthy a then a else b)"

text \<open>The argument \<^verbatim>\<open>cls\<close>: a class that is a subclass of \<^verbatim>\<open>SpectrumSeries\<close> or not.\<close>

datatype py_class =
    OpticalSpectrumSeries
  | SpectrumSeriesSubclass string
  | OtherClass string

fun issubclass_SpectrumSeries :: "py_class \<Rightarrow> bool" where
  "issubclass_SpectrumSeries (OtherClass n) = False"
| "issubclass_SpectrumSeries c = True"

text \<open>Modelled from the spec: the containers \<^verbatim>\<open>DataSeries\<close>, \<^verbatim>\<open>TimeSeries\<close>, \<^verbatim>\<open>Field\<close>
  and the spectrum-series classes are defined outside the reader; the spec treats them as
  collaborators that are only constructed. They are records of the constructor arguments
  (the argument \<^verbatim>\<open>reader=self\<close> is left out).\<close>

record data_series =
  ds_name :: string
  ds_unit_name :: string
  ds_data :: "pyfloat list"

record time_series =
  ts_name :: string
  ts_unit_name :: string
  ts_data :: "pyfloat list"
  ts_tstamp :: pyfloat

record field =
  fd_name :: string
  fd_unit_name :: string
  fd_data :: "pyfloat list list"
  axes_tseries :: time_series
  axes_xseries :: data_series

record spectrum_series =
  name :: pyval
  cls :: py_class
  technique :: string
  tstamp :: pyfloat
  field :: field
  continuous :: bool

subsection \<open>pathlib\<close>

text \<open>The argument \<open>path\<close> of the model is \<^verbatim>\<open>str(Path(path_to_file))\<close> on a POSIX system.
  \<^verbatim>\<open>Path.name\<close> is the last component, \<^verbatim>\<open>Path.stem\<close> the name without its last suffix.\<close>

definition path_name :: "string \<Rightarrow> string" where
  "path_name p = (if p = ''.'' then [] else rev (takeWhile (\<lambda>c. c \<noteq> CHR ''/'') (rev p)))"

definition stem :: "string \<Rightarrow> string" where
  "stem p =
     (let nm = path_name p;
          after = length (takeWhile (\<lambda>c. c \<noteq> CHR ''.'') (rev nm))
      in if CHR ''.'' \<in> set nm \<and> 0 < after \<and> Suc after < length nm
         then take (length nm - Suc after) nm else nm)"

subsection \<open>The helpers of the reader\<close>

fun idx :: "'a list \<Rightarrow> nat \<Rightarrow> error + 'a" where
  "idx xs i = (if i < length xs then Inr (xs ! i) else Inl IndexError)"

text \<open>A list comprehension whose element expression can raise: the first exception wins.\<close>

fun traverse :: "('a \<Rightarrow> error + 'b) \<Rightarrow> 'a list \<Rightarrow> error + 'b list" where
  "traverse f [] = Inr []"
| "traverse f (x # xs) =
     (case f x of
        Inl e \<Rightarrow> Inl e
      | Inr y \<Rightarrow> (case traverse f xs of Inl e \<Rightarrow> Inl e | Inr ys \<Rightarrow> Inr (y # ys)))"

definition to_float :: "string \<Rightarrow> error + pyfloat" where
  "to_float s = (case py_float s of None \<Rightarrow> Inl (FloatError s) | Some x \<Rightarrow> Inr x)"

text \<open>The class \<^verbatim>\<open>[\s\t]\<close>.\<close>

definition space_or_tab :: "char \<Rightarrow> bool" where
  "space_or_tab c = (isspace c \<or> c = CHR 0x09)"

text \<open>\<^verbatim>\<open>_parse_float_row\<close>.\<close>

definition parse_float_row :: "string \<Rightarrow> error + pyfloat list" where
  "parse_float_row s =
     (let parts = re_split (plus (Chr space_or_tab)) (strip s)
      in traverse (\<lambda>p. to_float (replace CHR '','' CHR ''.'' p)) (filter (\<lambda>p. p \<noteq> []) parts))"

text \<open>\<^verbatim>\<open>_parse_header_date\<close>. The two substitutions are
  \<^verbatim>\<open>\b[A-Z]{2,5}\b(?=\s+\d{4}$)\<close> and \<^verbatim>\<open>\bGMT[+-]\d{1,2}(?::\d{2})?\b\<close>.\<close>

definition tz_abbrev_re :: regex where
  "tz_abbrev_re = seqs [Bound, Rep (rng CHR ''A'' CHR ''Z'') 2 (Some 5), Bound,
                        Ahead (seqs [plus (Chr isspace), Rep dg 4 (Some 4), Eol])]"

definition gmt_offset_re :: regex where
  "gmt_offset_re = seqs [Bound, str_re ''GMT'', Chr (\<lambda>c. c = CHR ''+'' \<or> c = CHR ''-''),
                         Rep dg 1 (Some 2), opt (Seq (lit CHR '':'') (Rep dg 2 (Some 2))), Bound]"

definition header_fmts :: "string list" where
  "header_fmts = [''%a %b %d %H:%M:%S %Y'', ''%b %d %H:%M:%S %Y'',
                  ''%a %b %d %H:%M:%S.%f %Y'', ''%b %d %H:%M:%S.%f %Y'']"

text \<open>The loop \<^verbatim>\<open>for fmt in fmts: try: return strptime(s, fmt) except ValueError: continue\<close>.\<close>

fun try_formats :: "string \<Rightarrow> string list \<Rightarrow> datetime option" where
  "try_formats s [] = None"
| "try_formats s (fmt # fmts) =
     (case strptime s fmt of Some dt \<Rightarrow> Some dt | None \<Rightarrow> try_formats s fmts)"

definition clean_header_date :: "string \<Rightarrow> error + string" where
  "clean_header_date date_str =
     (let s = strip date_str in
      case (if startswith (lower s) ''date:''
            then map_sum id strip (idx (split1 CHR '':'' s) 1) else Inr s) of
        Inl e \<Rightarrow> Inl e
      | Inr s1 \<Rightarrow>
          (let s2 = re_sub (plus (Chr isspace)) '' '' s1;
               s3 = re_sub tz_abbrev_re [] s2
           in Inr (strip (re_sub gmt_offset_re [] s3))))"

definition parse_header_date :: "string \<Rightarrow> error + datetime" where
  "parse_header_date date_str =
     (case clean_header_date date_str of
        Inl e \<Rightarrow> Inl e
      | Inr s \<Rightarrow>
          (case try_formats s header_fmts of
             Some dt \<Rightarrow> Inr dt
           | None \<Rightarrow> Inl (HeaderDateError date_str)))"

text \<open>\<^verbatim>\<open>_split_stamp\<close>: with a tab in the line, \<^verbatim>\<open>line.split("\t", 1)\<close>; otherwise
  \<^verbatim>\<open>re.split(r"[\s\t]", line.strip())\<close>, of which the first two parts are used.\<close>

definition split_stamp :: "string \<Rightarrow> error + string \<times> string" where
  "split_stamp line =
     (if CHR 0x09 \<in> set line then
        (case split1 CHR 0x09 line of
           [stamp, rest] \<Rightarrow> Inr (strip stamp, strip rest)
         | _ \<Rightarrow> Inl UnpackError)
      else
        (let parts = re_split (Chr space_or_tab) (strip line) in
         if parts = [] then Inl EmptyLine
         else (case idx parts 0 of
                 Inl e \<Rightarrow> Inl e
               | Inr stamp \<Rightarrow>
                   (case (if 1 < length parts then idx parts 1 else Inr []) of
                      Inl e \<Rightarrow> Inl e
                    | Inr rest \<Rightarrow> Inr (strip stamp, strip rest)))))"

text \<open>\<^verbatim>\<open>_parse_filename_time\<close>: \<^verbatim>\<open>re.search(r"__(\d{2})-(\d{2})-(\d{2})-(\d{3})", str(path))\<close>
  and the integer value of the fourth group.\<close>

definition filename_time_re :: regex where
  "filename_time_re = seqs [str_re ''__'', Grp ''1'' (Rep dg 2 (Some 2)), lit CHR ''-'',
                            Grp ''2'' (Rep dg 2 (Some 2)), lit CHR ''-'',
                            Grp ''3'' (Rep dg 2 (Some 2)), lit CHR ''-'',
                            Grp ''4'' (Rep dg 3 (Some 3))]"

definition parse_filename_time :: "string \<Rightarrow> nat option" where
  "parse_filename_time path =
     (case re_search filename_time_re path of
        None \<Rightarrow> None
      | Some (p, rest, cs) \<Rightarrow> map_option py_int (group cs ''4''))"

text \<open>\<^verbatim>\<open>_parse_row_time\<close>. The value of a parsed stamp is
  \<^verbatim>\<open>dt.hour * 3600 + dt.minute * 60 + dt.second + dt.microsecond / 1e6\<close>.\<close>

definition row_fmts :: "string list" where
  "row_fmts = [''%Y-%m-%d %H:%M:%S.%f'', ''%H:%M:%S.%f'', ''%Y-%m-%d %H:%M:%S'',
               ''%H:%M:%S'', ''%H-%M-%S-%f'']"

definition day_seconds :: "datetime \<Rightarrow> rat" where
  "day_seconds dt =
     of_nat (hour dt * 3600 + minute dt * 60 + second dt) + of_nat (microsecond dt) / 1000000"

definition parse_row_time :: "string \<Rightarrow> pyfloat" where
  "parse_row_time stamp0 =
     (let stamp = strip stamp0 in
      case try_formats stamp row_fmts of
        Some dt \<Rightarrow> Fin (day_seconds dt)
      | None \<Rightarrow>
          (case py_float (replace CHR '','' CHR ''.'' stamp) of
             Some x \<Rightarrow> x
           | None \<Rightarrow> NaN))"

subsection \<open>read\<close>

text \<open>The header loop over \<^verbatim>\<open>lines[:40]\<close>: the first line that starts with \<^verbatim>\<open>date:\<close>
  (in any case) is parsed, and the loop ends there; \<open>Inr None\<close> when there is none.\<close>

fun scan_header :: "string list \<Rightarrow> error + datetime option" where
  "scan_header [] = Inr None"
| "scan_header (line # lns) =
     (if startswith (lower line) ''date:'' then
        (case idx (split1 CHR '':'' line) 1 of
           Inl e \<Rightarrow> Inl e
         | Inr date_str \<Rightarrow>
             (case parse_header_date (strip date_str) of
                Inl e \<Rightarrow> Inl e
              | Inr dt \<Rightarrow> Inr (Some dt)))
      else scan_header lns)"

text \<open>The refinement with the milliseconds of the file name, and \<^verbatim>\<open>dt_header.timestamp()\<close>.
  The conversion of a naive datetime to POSIX seconds depends on the time zone of the
  machine; it is the parameter \<open>timestamp\<close> (\<open>None\<close>: the conversion raises).\<close>

definition refine_header :: "nat option \<Rightarrow> datetime option \<Rightarrow> datetime option" where
  "refine_header ms dt_header =
     (case ms of
        None \<Rightarrow> dt_header
      | Some m \<Rightarrow>
          (case dt_header of
             None \<Rightarrow> None
           | Some dt \<Rightarrow> Some (dt\<lparr>microsecond := m * 1000\<rparr>)))"

definition header_tstamp ::
  "(datetime \<Rightarrow> pyfloat option) \<Rightarrow> string \<Rightarrow> string list \<Rightarrow> error + pyfloat" where
  "header_tstamp timestamp path_to_file lines =
     (case scan_header (take 40 lines) of
        Inl e \<Rightarrow> Inl e
      | Inr dt_header \<Rightarrow>
          (case refine_header (parse_filename_time path_to_file) dt_header of
             None \<Rightarrow> Inl NoneTimestamp
           | Some dt \<Rightarrow>
               (case timestamp dt of
                  None \<Rightarrow> Inl TimestampError
                | Some t \<Rightarrow> Inr t)))"

text \<open>The search for the data section: \<^verbatim>\<open>re.search(r"begin\s+spectral\s+data", ln, re.I)\<close>
  and \<^verbatim>\<open>re.match(r"^\s*\d", lines[i + 1])\<close>.\<close>

definition marker_re :: regex where
  "marker_re = seqs [istr_re ''begin'', plus (Chr isspace), istr_re ''spectral'',
                     plus (Chr isspace), istr_re ''data'']"

definition digit_lead_re :: regex where
  "digit_lead_re = seqs [Bol, star (Chr isspace), dg]"

definition is_marker :: "string \<Rightarrow> bool" where
  "is_marker line = (re_search marker_re line \<noteq> None)"

definition digit_leading :: "string \<Rightarrow> bool" where
  "digit_leading line = (re_match digit_lead_re line \<noteq> None)"

text \<open>The loop \<^verbatim>\<open>for i, ln in enumerate(lines)\<close>; the second argument is the index of the
  head of the list. On a marker in the last line, \<^verbatim>\<open>lines[i + 1]\<close> raises.\<close>

fun find_start :: "string list \<Rightarrow> nat \<Rightarrow> error + nat option" where
  "find_start [] i = Inr None"
| "find_start (line # lns) i =
     (if is_marker line then
        (case lns of
           [] \<Rightarrow> Inl IndexError
         | nxt # _ \<Rightarrow> if digit_leading nxt then Inr (Some i) else find_start lns (Suc i))
      else find_start lns (Suc i))"

definition data_lines :: "string list \<Rightarrow> nat \<Rightarrow> string list" where
  "data_lines lines start_idx = filter (\<lambda>line. strip line \<noteq> []) (drop (start_idx + 2) lines)"

text \<open>The loop over the data lines, which appends to \<^verbatim>\<open>rel_times\<close> and \<^verbatim>\<open>spectra\<close>.\<close>

fun parse_rows :: "string list \<Rightarrow> error + pyfloat list \<times> pyfloat list list" where
  "parse_rows [] = Inr ([], [])"
| "parse_rows (line # lns) =
     (case split_stamp line of
        Inl e \<Rightarrow> Inl e
      | Inr (stamp_str, vals) \<Rightarrow>
          (case traverse (\<lambda>v. to_float (replace CHR '','' CHR ''.'' v)) (split_ws vals) of
             Inl e \<Rightarrow> Inl e
           | Inr row \<Rightarrow>
               (case parse_rows lns of
                  Inl e \<Rightarrow> Inl e
                | Inr (rel_times, spectra) \<Rightarrow>
                    Inr (parse_row_time stamp_str # rel_times, row # spectra))))"

text \<open>\<^verbatim>\<open>np.stack\<close> of a list of rows.\<close>

definition np_stack :: "pyfloat list list \<Rightarrow> error + pyfloat list list" where
  "np_stack rows =
     (case rows of
        [] \<Rightarrow> Inl StackError
      | r # rs \<Rightarrow> if list_all (\<lambda>x. length x = length r) rs then Inr rows else Inl StackError)"

text \<open>\<^verbatim>\<open>np.array(rel_times) - rel_times[0]\<close>.\<close>

definition normalize_times :: "pyfloat list \<Rightarrow> error + pyfloat list" where
  "normalize_times rel_times =
     (case rel_times of
        [] \<Rightarrow> Inl IndexError
      | t0 # _ \<Rightarrow> Inr (map (\<lambda>t. fsub t t0) rel_times))"

definition read ::
  "(datetime \<Rightarrow> pyfloat option) \<Rightarrow> string \<Rightarrow> pyval \<Rightarrow> py_class \<Rightarrow> string list
     \<Rightarrow> error + spectrum_series" where
  "read timestamp path_to_file name0 cls0 lines =
     (case header_tstamp timestamp path_to_file lines of
        Inl e \<Rightarrow> Inl e
      | Inr tstamp_first \<Rightarrow>
     (case find_start lines 0 of
        Inl e \<Rightarrow> Inl e
      | Inr None \<Rightarrow> Inl NoSpectralData
      | Inr (Some start_idx) \<Rightarrow>
     (case idx lines (start_idx + 1) of
        Inl e \<Rightarrow> Inl e
      | Inr wl_line \<Rightarrow>
     (case parse_float_row (strip wl_line) of
        Inl e \<Rightarrow> Inl e
      | Inr wavelengths \<Rightarrow>
          if wavelengths = [] then Inl WavelengthEmpty
          else
     (case parse_rows (data_lines lines start_idx) of
        Inl e \<Rightarrow> Inl e
      | Inr (rel_times, spectra) \<Rightarrow>
     (case np_stack spectra of
        Inl e \<Rightarrow> Inl e
      | Inr y_matrix \<Rightarrow>
     (case normalize_times rel_times of
        Inl e \<Rightarrow> Inl e
      | Inr rel_times0 \<Rightarrow>
          Inr \<lparr> name = py_or name0 (PStr (stem path_to_file)),
                cls = (if issubclass_SpectrumSeries cls0 then cls0 else OpticalSpectrumSeries),
                technique = ''Optical'',
                tstamp = tstamp_first,
                field = \<lparr> fd_name = ''intensity'', fd_unit_name = ''a.u.'', fd_data = y_matrix,
                          axes_tseries = \<lparr> ts_name = ''time'', ts_unit_name = ''s'',
                                           ts_data = rel_times0, ts_tstamp = tstamp_first \<rparr>,
                          axes_xseries = \<lparr> ds_name = ''wavelength'', ds_unit_name = ''nm'',
                                           ds_data = wavelengths \<rparr> \<rparr>,
                continuous = True \<rparr>)))))))"

subsection \<open>A machine on UTC, and seconds since the epoch\<close>

text \<open>Days from 1970-01-01 to a date of the proleptic Gregorian calendar.\<close>

definition days_from_civil :: "nat \<Rightarrow> nat \<Rightarrow> nat \<Rightarrow> int" where
  "days_from_civil y m d =
     (let y' = (if m \<le> 2 then int y - 1 else int y);
          era = y' div 400;
          yoe = y' - era * 400;
          mp = (if 2 < m then int m - 3 else int m + 9);
          doy = (153 * mp + 2) div 5 + int d - 1;
          doe = yoe * 365 + yoe div 4 - yoe div 100 + doy
      in era * 146097 + doe - 719468)"

text \<open>The seconds from 1970-01-01 00:00:00 to a date-time (the words of the spec:
  "seconds since epoch").\<close>

definition epoch_seconds :: "datetime \<Rightarrow> rat" where
  "epoch_seconds dt =
     of_int (days_from_civil (year dt) (month dt) (day dt) * 86400) + day_seconds dt"

text \<open>\<^verbatim>\<open>datetime.timestamp\<close> of a naive datetime on a machine whose local time is UTC; it
  raises within the first day of year 1.\<close>

definition utc_timestamp :: "datetime \<Rightarrow> pyfloat option" where
  "utc_timestamp dt =
     (if year dt = 1 \<and> month dt = 1 \<and> day dt = 1 then None else Some (Fin (epoch_seconds dt)))"

subsection \<open>Example inputs\<close>

text \<open>The list that \<^verbatim>\<open>readlines\<close> returns for a text file whose lines are \<open>xs\<close>, each
  ended by a newline.\<close>

definition file_lines :: "string list \<Rightarrow> string list" where
  "file_lines xs = map (\<lambda>l. l @ [CHR 0x0A]) xs"

definition tab :: string where
  "tab = [CHR 0x09]"

text \<open>The example file of the specification.\<close>

definition example_lines :: "string list" where
  "example_lines = file_lines
     [''Date: Mon Jan 02 03:04:05 2023'',
      ''>>>>>Begin Spectral Data<<<<<'',
      ''400.0 400.5 401.0'',
      ''00:00:00.000'' @ tab @ ''1.0 2.0 3.0'',
      ''00:00:01.500'' @ tab @ ''1.1 2.1 3.1'']"

definition header_2023 :: datetime where
  "header_2023 = \<lparr>year = 2023, month = 1, day = 2, hour = 3, minute = 4, second = 5,
                   microsecond = 0\<rparr>"

text \<open>The same file with a first row whose stamp is no time and no number.\<close>

definition nan_lines :: "string list" where
  "nan_lines = file_lines
     [''Date: Mon Jan 02 03:04:05 2023'',
      ''>>>>>Begin Spectral Data<<<<<'',
      ''400.0 400.5 401.0'',
      ''abc'' @ tab @ ''1.0 2.0 3.0'',
      ''00:00:01.500'' @ tab @ ''1.1 2.1 3.1'']"

text \<open>A file with no \<^verbatim>\<open>Date:\<close> line.\<close>

definition no_date_lines :: "string list" where
  "no_date_lines = file_lines
     [''>>>>>Begin Spectral Data<<<<<'',
      ''400.0 400.5 401.0'',
      ''00:00:00.000'' @ tab @ ''1.0 2.0 3.0'']"

text \<open>The objects that \<^verbatim>\<open>read\<close> returns for the first two files, on a machine on UTC.\<close>

definition example_series :: spectrum_series where
  "example_series =
     \<lparr> name = PStr ''spec'', cls = OpticalSpectrumSeries, technique = ''Optical'',
       tstamp = Fin 1672628645,
       field = \<lparr> fd_name = ''intensity'', fd_unit_name = ''a.u.'',
                 fd_data = [[Fin 1, Fin 2, Fin 3], [Fin (11 / 10), Fin (21 / 10), Fin (31 / 10)]],
                 axes_tseries = \<lparr> ts_name = ''time'', ts_unit_name = ''s'',
                                  ts_data = [Fin 0, Fin (3 / 2)], ts_tstamp = Fin 1672628645 \<rparr>,
                 axes_xseries = \<lparr> ds_name = ''wavelength'', ds_unit_name = ''nm'',
                                  ds_data = [Fin 400, Fin (801 / 2), Fin 401] \<rparr> \<rparr>,
       continuous = True \<rparr>"

definition nan_series :: spectrum_series where
  "nan_series =
     \<lparr> name = PStr ''spec'', cls = OpticalSpectrumSeries, technique = ''Optical'',
       tstamp = Fin 1672628645,
       field = \<lparr> fd_name = ''intensity'', fd_unit_name = ''a.u.'',
                 fd_data = [[Fin 1, Fin 2, Fin 3], [Fin (11 / 10), Fin (21 / 10), Fin (31 / 10)]],
                 axes_tseries = \<lparr> ts_name = ''time'', ts_unit_name = ''s'',
                                  ts_data = [NaN, NaN], ts_tstamp = Fin 1672628645 \<rparr>,
                 axes_xseries = \<lparr> ds_name = ''wavelength'', ds_unit_name = ''nm'',
                                  ds_data = [Fin 400, Fin (801 / 2), Fin 401] \<rparr> \<rparr>,
       continuous = True \<rparr>"

section \<open>Evaluation of the model on concrete inputs\<close>

lemmas chr_defs = ord_def isspace_def isdigit_def isword_def in_range_def is_upper_def
  lower_chr_def lower_def strip_def startswith_def replace_def split1_def split_ws_def
  space_or_tab_def

lemmas re_defs = lit_def ilit_def str_re_def istr_re_def seqs_def plus_def star_def opt_def
  re_match_def re_search_def re_sub_def re_split_def dg_def rng_def

lemmas float_defs = float_space_def float_strip_def digits_val_def parse_decimal_def
  py_float_def rnd_def dbl_limit_def to_float_def

lemmas strptime_defs = directive_def pattern_def group_def py_int_def digits_val_def
  datetime_of_groups_def strptime_def valid_datetime_def days_in_month_def is_leap_def
  weekday_names_def month_names_def

lemmas helper_defs = tz_abbrev_re_def gmt_offset_re_def header_fmts_def
  clean_header_date_def parse_header_date_def split_stamp_def parse_float_row_def
  filename_time_re_def parse_filename_time_def row_fmts_def day_seconds_def
  parse_row_time_def

lemmas read_defs = refine_header_def header_tstamp_def marker_re_def digit_lead_re_def
  is_marker_def digit_leading_def data_lines_def np_stack_def normalize_times_def read_def
  py_or_def path_name_def stem_def days_from_civil_def epoch_seconds_def utc_timestamp_def
  file_lines_def tab_def

lemmas eval_defs = chr_defs re_defs float_defs strptime_defs helper_defs read_defs

text \<open>The greedy repetition with a numeral as upper bound.\<close>

lemma rep_numeral [simp]:
  "rep f lo (numeral k) st =
     concat (map (rep f (lo - 1) (pred_numeral k)) (f st)) @ (if lo = 0 then [st] else [])"
  by (simp add: numeral_eq_Suc)

lemma rep_one [simp]:
  "rep f lo 1 st = concat (map (rep f (lo - 1) 0) (f st)) @ (if lo = 0 then [st] else [])"
  by (simp add: One_nat_def [symmetric] del: One_nat_def) (simp)

lemma replicate_numeral_unfold [simp]:
  "replicate (numeral k) x = x # replicate (pred_numeral k) x"
  by (simp add: numeral_eq_Suc)

lemma parse_header_plain:
  "parse_header_date ''Mon Jan 02 03:04:05 2023'' = Inr header_2023"
  by (simp add: header_2023_def chr_defs re_defs strptime_defs helper_defs)

lemma parse_header_tz_before_year:
  "parse_header_date ''Mon Jan 02 03:04:05 EST 2023'' = Inr header_2023"
  by (simp add: header_2023_def chr_defs re_defs strptime_defs helper_defs)

lemma parse_header_gmt_offset:
  "parse_header_date ''Mon Jan 02 03:04:05 GMT+01:00 2023'' = Inr header_2023"
  by (simp add: header_2023_def chr_defs re_defs strptime_defs helper_defs)

lemma parse_header_tz_after_year:
  "parse_header_date ''Mon Jan 02 03:04:05 2023 EST'' =
     Inl (HeaderDateError ''Mon Jan 02 03:04:05 2023 EST'')"
  by (simp add: chr_defs re_defs strptime_defs helper_defs)

section \<open>Properties of the reader\<close>

lemma fsub_self: "fsub t t = (if is_finite t then Fin 0 else NaN)"
  by (cases t) (simp_all add: rnd_def dbl_limit_def)

lemma fsub_NaN_left: "fsub NaN t = NaN"
  by simp

lemma parse_rows_lengths:
  "parse_rows ls = Inr (ts, sp) \<Longrightarrow> length ts = length ls \<and> length sp = length ls"
  by (induction ls arbitrary: ts sp) (auto split: sum.splits prod.splits)

lemma parse_rows_nth:
  "parse_rows ls = Inr (ts, sp) \<Longrightarrow> i < length ls \<Longrightarrow> split_stamp (ls ! i) = Inr (st, v)
     \<Longrightarrow> ts ! i = parse_row_time st"
proof (induction ls arbitrary: ts sp i)
  case Nil
  then show ?case by simp
next
  case (Cons l ls)
  then show ?case
    by (cases i) (auto split: sum.splits prod.splits)
qed

lemma py_or_falsy: "\<not> truthy n \<Longrightarrow> py_or n x = x"
  by (simp add: py_or_def)

lemma read_falsy_name:
  assumes "\<not> truthy n"
  shows "read ts p n c lines = read ts p PNone c lines"
proof -
  have "py_or n (PStr (stem p)) = py_or PNone (PStr (stem p))"
    using assms by (simp add: py_or_def)
  then show ?thesis
    unfolding read_def by (simp only:)
qed

lemma read_Inr_parts:
  assumes "read ts p n c lines = Inr r"
  obtains t start wl_line wls rel sp y rel0 where
    "header_tstamp ts p lines = Inr t"
    "find_start lines 0 = Inr (Some start)"
    "idx lines (start + 1) = Inr wl_line"
    "parse_float_row (strip wl_line) = Inr wls" "wls \<noteq> []"
    "parse_rows (data_lines lines start) = Inr (rel, sp)"
    "np_stack sp = Inr y"
    "normalize_times rel = Inr rel0"
    "name r = py_or n (PStr (stem p))"
    "tstamp r = t"
    "ts_data (axes_tseries (field r)) = rel0"
    "fd_data (field r) = y"
    "ds_data (axes_xseries (field r)) = wls"
  using assms unfolding read_def
  by (auto split: sum.splits option.splits prod.splits if_splits)

lemma read_Inr_intro:
  assumes "header_tstamp ts p lines = Inr t"
    and "find_start lines 0 = Inr (Some start)"
    and "idx lines (start + 1) = Inr wl_line"
    and "parse_float_row (strip wl_line) = Inr wls" and "wls \<noteq> []"
    and "parse_rows (data_lines lines start) = Inr (rel, sp)"
    and "np_stack sp = Inr y"
    and "normalize_times rel = Inr rel0"
  shows "read ts p n c lines =
     Inr \<lparr> name = py_or n (PStr (stem p)),
           cls = (if issubclass_SpectrumSeries c then c else OpticalSpectrumSeries),
           technique = ''Optical'', tstamp = t,
           field = \<lparr> fd_name = ''intensity'', fd_unit_name = ''a.u.'', fd_data = y,
                     axes_tseries = \<lparr> ts_name = ''time'', ts_unit_name = ''s'',
                                      ts_data = rel0, ts_tstamp = t \<rparr>,
                     axes_xseries = \<lparr> ds_name = ''wavelength'', ds_unit_name = ''nm'',
                                      ds_data = wls \<rparr> \<rparr>,
           continuous = True \<rparr>"
  using assms by (simp add: read_def)

lemma np_stack_Inr: "np_stack sp = Inr y \<Longrightarrow> y = sp \<and> sp \<noteq> []"
  by (auto simp: np_stack_def split: list.splits if_splits)

lemma normalize_times_Inr:
  "normalize_times rel = Inr rel0 \<Longrightarrow> rel \<noteq> [] \<and> rel0 = map (\<lambda>t. fsub t (hd rel)) rel"
  by (auto simp: normalize_times_def split: list.splits)

lemma scan_header_no_date:
  "list_all (\<lambda>l. \<not> startswith (lower l) ''date:'') ls \<Longrightarrow> scan_header ls = Inr None"
  by (induction ls) simp_all

lemma try_formats_first:
  "k < length fmts \<Longrightarrow> strptime s (fmts ! k) = Some dt \<Longrightarrow>
   (\<forall>j<k. strptime s (fmts ! j) = None) \<Longrightarrow> try_formats s fmts = Some dt"
proof (induction fmts arbitrary: k)
  case Nil
  then show ?case by simp
next
  case (Cons f fmts)
  show ?case
  proof (cases k)
    case 0
    with Cons.prems show ?thesis by simp
  next
    case (Suc k')
    from Cons.prems Suc have "strptime s f = None" by auto
    moreover have "try_formats s fmts = Some dt"
    proof (rule Cons.IH [of k'])
      show "k' < length fmts" using Cons.prems Suc by simp
      show "strptime s (fmts ! k') = Some dt" using Cons.prems Suc by simp
      show "\<forall>j<k'. strptime s (fmts ! j) = None"
      proof (intro allI impI)
        fix j assume "j < k'"
        then have "Suc j < k" using Suc by simp
        with Cons.prems have "strptime s ((f # fmts) ! Suc j) = None" by blast
        then show "strptime s (fmts ! j) = None" by simp
      qed
    qed
    ultimately show ?thesis by simp
  qed
qed

lemma strptime_valid: "strptime s fmt = Some dt \<Longrightarrow> valid_datetime dt"
  by (auto simp: strptime_def split: option.splits prod.splits if_splits)

lemma day_seconds_bound:
  assumes "valid_datetime dt"
  shows "0 \<le> day_seconds dt \<and> day_seconds dt < 86400"
proof -
  from assms have h: "hour dt \<le> 23" "minute dt \<le> 59" "second dt \<le> 59"
    "microsecond dt \<le> 999999" by (simp_all add: valid_datetime_def)
  have "hour dt * 3600 + minute dt * 60 + second dt \<le> 86399" using h by linarith
  then have a: "(of_nat (hour dt * 3600 + minute dt * 60 + second dt) :: rat) \<le> 86399"
    by (metis of_nat_le_iff of_nat_numeral)
  have "(of_nat (microsecond dt) :: rat) \<le> 999999"
    using h(4) by (metis of_nat_le_iff of_nat_numeral)
  then have b: "(of_nat (microsecond dt) :: rat) / 1000000 < 1" by simp
  have c: "0 \<le> (of_nat (microsecond dt) :: rat) / 1000000" by simp
  have d: "0 \<le> (of_nat (hour dt * 3600 + minute dt * 60 + second dt) :: rat)" by simp
  show ?thesis unfolding day_seconds_def using a b c d by linarith
qed

section \<open>The reader on the example files\<close>

lemma example_scan: "scan_header (take 40 example_lines) = Inr (Some header_2023)"
  by (simp add: example_lines_def file_lines_def tab_def chr_defs parse_header_plain)

lemma example_find_start: "find_start example_lines 0 = Inr (Some 1)"
  by (simp add: example_lines_def file_lines_def tab_def chr_defs re_defs marker_re_def
      digit_lead_re_def is_marker_def digit_leading_def)

lemma example_wavelengths:
  "parse_float_row (strip (example_lines ! 2)) = Inr [Fin 400, Fin (801 / 2), Fin 401]"
  by (simp add: example_lines_def file_lines_def tab_def chr_defs re_defs float_defs
      parse_float_row_def)

lemma example_data_lines:
  "data_lines example_lines 1 =
     [''00:00:00.000'' @ tab @ ''1.0 2.0 3.0'' @ [CHR 0x0A],
      ''00:00:01.500'' @ tab @ ''1.1 2.1 3.1'' @ [CHR 0x0A]]"
  by (simp add: example_lines_def file_lines_def tab_def chr_defs data_lines_def)

lemma split_stamp_row1:
  "split_stamp (''00:00:00.000'' @ tab @ ''1.0 2.0 3.0'' @ [CHR 0x0A]) =
     Inr (''00:00:00.000'', ''1.0 2.0 3.0'')"
  by (simp add: tab_def chr_defs split_stamp_def)

lemma split_stamp_row2:
  "split_stamp (''00:00:01.500'' @ tab @ ''1.1 2.1 3.1'' @ [CHR 0x0A]) =
     Inr (''00:00:01.500'', ''1.1 2.1 3.1'')"
  by (simp add: tab_def chr_defs split_stamp_def)

lemma split_stamp_abc:
  "split_stamp (''abc'' @ tab @ ''1.0 2.0 3.0'' @ [CHR 0x0A]) = Inr (''abc'', ''1.0 2.0 3.0'')"
  by (simp add: tab_def chr_defs split_stamp_def)

lemma row_time_0: "parse_row_time ''00:00:00.000'' = Fin 0"
  by (simp add: chr_defs re_defs strptime_defs row_fmts_def day_seconds_def parse_row_time_def)

lemma row_time_1500: "parse_row_time ''00:00:01.500'' = Fin (3 / 2)"
  by (simp add: chr_defs re_defs strptime_defs row_fmts_def day_seconds_def parse_row_time_def)

lemma row_formats_abc: "try_formats (strip ''abc'') row_fmts = None"
  by (simp add: chr_defs re_defs strptime_defs row_fmts_def)

lemma float_abc: "py_float (replace CHR '','' CHR ''.'' (strip ''abc'')) = None"
  by (simp add: chr_defs float_defs)

lemma row_time_abc: "parse_row_time ''abc'' = NaN"
  using row_formats_abc float_abc by (simp add: parse_row_time_def)

lemma values_row1:
  "traverse (\<lambda>v. to_float (replace CHR '','' CHR ''.'' v)) (split_ws ''1.0 2.0 3.0'') =
     Inr [Fin 1, Fin 2, Fin 3]"
  by (simp add: chr_defs float_defs)

lemma values_row2:
  "traverse (\<lambda>v. to_float (replace CHR '','' CHR ''.'' v)) (split_ws ''1.1 2.1 3.1'') =
     Inr [Fin (11 / 10), Fin (21 / 10), Fin (31 / 10)]"
  by (simp add: chr_defs float_defs)

lemma example_rows:
  "parse_rows (data_lines example_lines 1) =
     Inr ([Fin 0, Fin (3 / 2)],
          [[Fin 1, Fin 2, Fin 3], [Fin (11 / 10), Fin (21 / 10), Fin (31 / 10)]])"
  unfolding example_data_lines parse_rows.simps split_stamp_row1 split_stamp_row2
  by (simp add: row_time_0 row_time_1500 values_row1 values_row2)

lemma example_tstamp:
  "header_tstamp utc_timestamp ''/data/spec.txt'' example_lines = Inr (Fin 1672628645)"
  by (simp add: header_tstamp_def example_scan header_2023_def chr_defs re_defs
      filename_time_re_def parse_filename_time_def refine_header_def utc_timestamp_def
      epoch_seconds_def days_from_civil_def day_seconds_def)

lemma example_wl_line: "idx example_lines (1 + 1) = Inr (example_lines ! 2)"
  by (simp add: example_lines_def file_lines_def)

lemma stem_spec: "stem ''/data/spec.txt'' = ''spec''"
  by (simp add: stem_def path_name_def)

lemma example_read:
  "read utc_timestamp ''/data/spec.txt'' PNone OpticalSpectrumSeries example_lines =
     Inr example_series"
  unfolding example_series_def
  by (subst read_Inr_intro [OF example_tstamp example_find_start example_wl_line
        example_wavelengths _ example_rows])
     (simp_all add: np_stack_def normalize_times_def rnd_def dbl_limit_def py_or_def stem_spec)

lemma nan_scan: "scan_header (take 40 nan_lines) = Inr (Some header_2023)"
  by (simp add: nan_lines_def file_lines_def tab_def chr_defs parse_header_plain)

lemma nan_find_start: "find_start nan_lines 0 = Inr (Some 1)"
  by (simp add: nan_lines_def file_lines_def tab_def chr_defs re_defs marker_re_def
      digit_lead_re_def is_marker_def digit_leading_def)

lemma nan_wavelengths:
  "parse_float_row (strip (nan_lines ! 2)) = Inr [Fin 400, Fin (801 / 2), Fin 401]"
  by (simp add: nan_lines_def file_lines_def tab_def chr_defs re_defs float_defs
      parse_float_row_def)

lemma nan_data_lines:
  "data_lines nan_lines 1 =
     [''abc'' @ tab @ ''1.0 2.0 3.0'' @ [CHR 0x0A],
      ''00:00:01.500'' @ tab @ ''1.1 2.1 3.1'' @ [CHR 0x0A]]"
  by (simp add: nan_lines_def file_lines_def tab_def chr_defs data_lines_def)

lemma nan_rows:
  "parse_rows (data_lines nan_lines 1) =
     Inr ([NaN, Fin (3 / 2)],
          [[Fin 1, Fin 2, Fin 3], [Fin (11 / 10), Fin (21 / 10), Fin (31 / 10)]])"
  unfolding nan_data_lines parse_rows.simps split_stamp_abc split_stamp_row2
  by (simp add: row_time_abc row_time_1500 values_row1 values_row2)

lemma nan_tstamp:
  "header_tstamp utc_timestamp ''/data/spec.txt'' nan_lines = Inr (Fin 1672628645)"
  by (simp add: header_tstamp_def nan_scan header_2023_def chr_defs re_defs
      filename_time_re_def parse_filename_time_def refine_header_def utc_timestamp_def
      epoch_seconds_def days_from_civil_def day_seconds_def)

lemma nan_wl_line: "idx nan_lines (1 + 1) = Inr (nan_lines ! 2)"
  by (simp add: nan_lines_def file_lines_def)

lemma nan_read:
  "read utc_timestamp ''/data/spec.txt'' PNone OpticalSpectrumSeries nan_lines = Inr nan_series"
  unfolding nan_series_def
  by (subst read_Inr_intro [OF nan_tstamp nan_find_start nan_wl_line nan_wavelengths _ nan_rows])
     (simp_all add: np_stack_def normalize_times_def rnd_def dbl_limit_def py_or_def stem_spec)

section \<open>The claims\<close>

text \<open>
  Claim C2 (the code differs from its docstring). The claim: a data line without a tab
  is split at the first whitespace run, everything after it being the remainder from
  which the whole intensity vector is parsed. The docstring of \<^verbatim>\<open>_split_stamp\<close> says the
  same ("else first whitespace run"). The code splits at every single whitespace
  character and keeps only the second part: of the line \<^verbatim>\<open>00:00:00 1.0 2.0 3.0\<close> the
  remainder is \<^verbatim>\<open>1.0\<close>, not \<^verbatim>\<open>1.0 2.0 3.0\<close>, and with two spaces after the stamp it is
  empty.
\<close>

theorem split_stamp_keeps_second_token_only:
  "split_stamp ''00:00:00 1.0 2.0 3.0'' = Inr (''00:00:00'', ''1.0'') \<and>
   split_stamp ''00:00:00  1.0 2.0 3.0'' = Inr (''00:00:00'', [])"
  by (simp add: chr_defs re_defs helper_defs)

text \<open>
  Claim C3, as stated, fails: the abbreviation is removed only where it stands before the
  four-digit year that ends the string, so \<^verbatim>\<open>Mon Jan 02 03:04:05 2023 EST\<close> is left as it
  is and no format parses it.
\<close>

theorem tz_after_year_not_parsed:
  "parse_header_date ''Mon Jan 02 03:04:05 2023 EST'' =
     Inl (HeaderDateError ''Mon Jan 02 03:04:05 2023 EST'') \<and>
   parse_header_date ''Mon Jan 02 03:04:05 2023'' = Inr header_2023"
  using parse_header_tz_after_year parse_header_plain by simp

text \<open>
  Claim C3, amended: parsing \<^verbatim>\<open>Mon Jan 02 03:04:05 EST 2023\<close>, with the abbreviation before
  the year, succeeds and yields the same naive timestamp as \<^verbatim>\<open>Mon Jan 02 03:04:05 2023\<close>,
  and so does a \<^verbatim>\<open>GMT+01:00\<close> offset in that place. Parsing is a function of the string
  alone (in a fixed locale), so the same string always gives the same timestamp.
\<close>

theorem tz_before_year_same_timestamp:
  "parse_header_date ''Mon Jan 02 03:04:05 EST 2023'' = Inr header_2023 \<and>
   parse_header_date ''Mon Jan 02 03:04:05 GMT+01:00 2023'' = Inr header_2023 \<and>
   parse_header_date ''Mon Jan 02 03:04:05 2023'' = Inr header_2023"
  using parse_header_tz_before_year parse_header_gmt_offset parse_header_plain by simp

end
